theory Spec2Isabelle
  imports Main
begin

section \<open>Python values shared by both modules\<close>

text \<open>
  A Python \<open>str\<close> is modelled as a \<open>string\<close>; the one non-ASCII character of the
  source, the arrow U+279C, is kept as its three UTF-8 bytes. \<open>bytes\<close> are lists of
  natural numbers below 256.
\<close>

type_synonym bytes = "nat list"

text \<open>The exception classes that occur in the two modules, and \<open>isinstance\<close> on them.\<close>

datatype exc_class =
    ValueError
  | UnicodeDecodeError
  | UnicodeEncodeError
  | BinasciiError
  | TypeError
  | OSError
  | IndexError
  | RuntimeError
  | NotApplicable

text \<open>
  The direct base class inside the modelled hierarchy: \<open>UnicodeDecodeError\<close>,
  \<open>UnicodeEncodeError\<close> and \<open>binascii.Error\<close> derive from \<open>ValueError\<close>; the others
  derive from \<open>Exception\<close>, which is not listed.
\<close>

fun base_class :: "exc_class \<Rightarrow> exc_class option" where
  "base_class UnicodeDecodeError = Some ValueError"
| "base_class UnicodeEncodeError = Some ValueError"
| "base_class BinasciiError = Some ValueError"
| "base_class _ = None"

definition isinstance :: "exc_class \<Rightarrow> exc_class list \<Rightarrow> bool" where
  "isinstance e cs \<longleftrightarrow> e \<in> set cs \<or> (case base_class e of None \<Rightarrow> False | Some b \<Rightarrow> b \<in> set cs)"

section \<open>colorama constants\<close>

definition ESC :: string where "ESC = [CHR 0x1B]"
definition NL :: string where "NL = [CHR 0x0A]"
definition Fore_RED :: string where "Fore_RED = ESC @ ''[31m''"
definition Fore_GREEN :: string where "Fore_GREEN = ESC @ ''[32m''"
definition Fore_YELLOW :: string where "Fore_YELLOW = ESC @ ''[33m''"
definition Fore_BLUE :: string where "Fore_BLUE = ESC @ ''[34m''"
definition Fore_MAGENTA :: string where "Fore_MAGENTA = ESC @ ''[35m''"
definition Fore_CYAN :: string where "Fore_CYAN = ESC @ ''[36m''"
definition Style_BRIGHT :: string where "Style_BRIGHT = ESC @ ''[1m''"
definition Style_RESET_ALL :: string where "Style_RESET_ALL = ESC @ ''[0m''"
definition ARROW :: string where "ARROW = [CHR 0xE2, CHR 0x9E, CHR 0x9C]"

section \<open>Units and targets as objects in a store\<close>

text \<open>
  Units and targets are Python objects that refer to each other: \<open>unit.target\<close> is a
  target and \<open>target.parent\<close> is the unit that produced the target, or \<open>None\<close> for a
  root target. The store maps references to these attributes, so that a parent chain may
  be cyclic or endless in the model exactly as it may be among objects.
  \<open>unit_str\<close> and \<open>target_str\<close> stand for \<open>str(unit)\<close> and \<open>str(target)\<close>, whose
  classes live in \<open>katana.unit\<close> and \<open>katana.target\<close>.
\<close>

type_synonym unit_ref = nat
type_synonym target_ref = nat

record store =
  unit_target :: "unit_ref \<Rightarrow> target_ref"
  target_parent :: "target_ref \<Rightarrow> unit_ref option"
  unit_str :: "unit_ref \<Rightarrow> string"
  target_str :: "target_ref \<Rightarrow> string"

definition parent_link :: "store \<Rightarrow> unit_ref \<Rightarrow> unit_ref option" where
  \<comment> \<open>\<open>link.target.parent\<close>\<close>
  "parent_link s link = target_parent s (unit_target s link)"

text \<open>
  The loop shared by \<open>ReplMonitor.on_flag\<close> and \<open>Repl.generate_solution\<close>:
  \<^verbatim>\<open>
  while link is not None:
      chain.append(link)
      link = link.target.parent
  \<close>
  It need not end, so its result is an option: \<open>None\<close> is a loop that runs forever.
\<close>

partial_function (option) build_chain ::
  "store \<Rightarrow> unit_ref option \<Rightarrow> unit_ref list \<Rightarrow> unit_ref list option" where
  "build_chain s link chain =
     (case link of
        None \<Rightarrow> Some chain
      | Some u \<Rightarrow> build_chain s (parent_link s u) (chain @ [u]))"

declare build_chain.simps [code]

definition reversed_chain :: "store \<Rightarrow> unit_ref \<Rightarrow> unit_ref list option" where
  \<comment> \<open>the loop from \<open>link = unit\<close> with \<open>chain = []\<close>, then \<open>chain = chain[::-1]\<close>\<close>
  "reversed_chain s u = map_option rev (build_chain s (Some u) [])"

section \<open>Repl.generate_solution\<close>

definition entry_text :: "store \<Rightarrow> unit_ref \<Rightarrow> string" where
  \<comment> \<open>\<open>{Fore.MAGENTA}{chain[n]}{Style.RESET_ALL}({Fore.RED}{chain[n].target}{Style.RESET_ALL})\<close>\<close>
  "entry_text s u =
     Fore_MAGENTA @ unit_str s u @ Style_RESET_ALL @ ''('' @
     Fore_RED @ target_str s (unit_target s u) @ Style_RESET_ALL @ '')''"

definition solution_first :: "store \<Rightarrow> unit_ref \<Rightarrow> string" where
  "solution_first s u = entry_text s u @ NL"

definition chain_line :: "store \<Rightarrow> nat \<Rightarrow> unit_ref \<Rightarrow> string" where
  "chain_line s n u =
     '' '' @ replicate n (CHR '' '') @ entry_text s u @ '' '' @
     Fore_YELLOW @ ARROW @ '' '' @ Style_RESET_ALL @ NL"

definition flag_line :: "nat \<Rightarrow> string \<Rightarrow> string" where
  "flag_line n flag =
     '' '' @ replicate n (CHR '' '') @ Fore_GREEN @ Style_BRIGHT @ flag @ Style_RESET_ALL @
     '' - '' @ ''(copied)''"

definition print_chain :: "store \<Rightarrow> unit_ref list \<Rightarrow> string \<Rightarrow> string" where
  \<comment> \<open>\<open>for n in range(1, len(chain)): log_entry += ...\<close>\<close>
  "print_chain s chain log_entry =
     fold (\<lambda>n log. log @ chain_line s n (chain ! n)) [1..<length chain] log_entry"

definition solution_text :: "store \<Rightarrow> unit_ref list \<Rightarrow> string \<Rightarrow> exc_class + string" where
  \<comment> \<open>the body of \<open>generate_solution\<close> after the chain is reversed; \<open>chain[0]\<close> raises
      on an empty list\<close>
  "solution_text s chain flag =
     (case chain of
        [] \<Rightarrow> Inl IndexError
      | c0 # _ \<Rightarrow>
          Inr (print_chain s chain (solution_first s c0) @ flag_line (length chain) flag))"

definition generate_solution ::
  "store \<Rightarrow> unit_ref \<times> string \<Rightarrow> (exc_class + string) option" where
  "generate_solution s flag =
     (case reversed_chain s (fst flag) of
        None \<Rightarrow> None
      | Some chain \<Rightarrow> Some (solution_text s chain (snd flag)))"


text \<open>The units on the way from a unit up to its root, the unit itself first.\<close>

inductive walk_up :: "store \<Rightarrow> unit_ref \<Rightarrow> unit_ref list \<Rightarrow> bool" for s :: store where
  walk_root: "parent_link s u = None \<Longrightarrow> walk_up s u [u]"
| walk_step: "parent_link s u = Some p \<Longrightarrow> walk_up s p ps \<Longrightarrow> walk_up s u (u # ps)"

section \<open>ReplMonitor.on_flag\<close>

text \<open>
  The monitor keeps \<open>self.flags\<close>, a list of \<open>(unit, flag)\<close> pairs; whatever else the
  base class \<open>JsonMonitor\<close> keeps is the field \<open>json_state\<close>. Around it, the state
  that \<open>on_flag\<close> can touch: the paste buffer, the alerts shown to the user and the
  submissions sent to the CTF provider.
\<close>

record 'j monitor =
  flags :: "(unit_ref \<times> string) list"
  json_state :: 'j

record ('j, 'c) repl =
  monitor :: "'j monitor"
  paste_buffer :: "string option"
  alerts :: "string list"
  submitted :: "('c \<times> string) list"

text \<open>
  What \<open>on_flag\<close> uses and this module does not define: the base class's \<open>on_flag\<close>,
  the manager's configuration (sections of string options), the identifier \<open>u\<close>
  computed from \<open>unit.origin\<close> (the last piece of its URL decoded as UTF-8, or the
  digest of its hash), the table \<open>ctf_targets\<close> reduced to its challenges, the
  provider's answer to a submission, a challenge's title, and the clipboard. Computing
  \<open>u\<close>, submitting and writing to the clipboard may each raise instead of returning.
\<close>

record ('j, 'c) flag_env =
  super_on_flag :: "'j monitor \<Rightarrow> unit_ref \<Rightarrow> string \<Rightarrow> 'j monitor"
  config :: "string \<rightharpoonup> (string \<rightharpoonup> string)"
  origin_ident :: "unit_ref \<Rightarrow> exc_class + string"
  ctf_targets :: "string \<rightharpoonup> 'c"
  submit_result :: "'c \<Rightarrow> string \<Rightarrow> exc_class + bool"
  title :: "'c \<Rightarrow> string"
  paste_raises :: "string \<Rightarrow> exc_class option"

definition duplicate_flag :: "(unit_ref \<times> string) list \<Rightarrow> string \<Rightarrow> bool" where
  \<comment> \<open>\<open>len([f for f in self.flags if f[1] == flag]) > 0\<close>\<close>
  "duplicate_flag fs flag \<longleftrightarrow> length (filter (\<lambda>f. snd f = flag) fs) > 0"

definition auto_submit :: "('j, 'c) flag_env \<Rightarrow> bool" where
  \<comment> \<open>\<open>"ctf" in manager and "auto-submit" in manager["ctf"] and manager["ctf"]["auto-submit"]\<close>\<close>
  "auto_submit e =
     (case config e ''ctf'' of
        None \<Rightarrow> False
      | Some section \<Rightarrow>
          (case section ''auto-submit'' of None \<Rightarrow> False | Some v \<Rightarrow> v \<noteq> []))"

definition flag_first :: "store \<Rightarrow> unit_ref \<Rightarrow> string" where
  "flag_first s u =
     entry_text s u @ '' - '' @ Fore_GREEN @ ''completed'' @ Style_RESET_ALL @ ''!'' @ NL"

definition ctf_verdict :: "('j, 'c) flag_env \<Rightarrow> 'c \<Rightarrow> bool \<Rightarrow> string" where
  "ctf_verdict e c result =
     (if result then
        NL @ NL @ ''['' @ Fore_GREEN @ ''+'' @ Style_RESET_ALL @ ''] ctf: '' @
        Fore_GREEN @ ''correct'' @ Style_RESET_ALL @ '' flag for challenge '' @ title e c @ NL
      else
        NL @ NL @ ''['' @ Fore_RED @ ''-'' @ Style_RESET_ALL @ ''] ctf: '' @
        Fore_RED @ ''incorrect'' @ Style_RESET_ALL @ '' flag for challenge '' @ title e c @ NL)"

definition flag_log_entry :: "store \<Rightarrow> unit_ref list \<Rightarrow> string \<Rightarrow> exc_class + string" where
  \<comment> \<open>\<open>log_entry\<close> as built from the reversed chain, up to the line of the flag;
      \<open>chain[0]\<close> raises on an empty list\<close>
  "flag_log_entry s chain flag =
     (case chain of
        [] \<Rightarrow> Inl IndexError
      | c0 # _ \<Rightarrow>
          Inr (print_chain s chain (flag_first s c0) @ flag_line (length chain) flag))"

definition ctf_submit ::
  "('j, 'c) flag_env \<Rightarrow> unit_ref \<Rightarrow> string \<Rightarrow> ('j, 'c) repl \<Rightarrow> string
     \<Rightarrow> exc_class option \<times> ('j, 'c) repl \<times> string" where
  \<comment> \<open>the auto-submit block: the exception that leaves it, if any, the state and
      \<open>log_entry\<close> after it\<close>
  "ctf_submit e unit flag w log_entry =
     (if auto_submit e then
        (case origin_ident e unit of
           Inl x \<Rightarrow> (Some x, w, log_entry)
         | Inr u \<Rightarrow>
             (case ctf_targets e u of
                None \<Rightarrow> (None, w, log_entry)
              | Some c \<Rightarrow>
                  (let w1 = w\<lparr>submitted := submitted w @ [(c, flag)]\<rparr>
                   in case submit_result e c flag of
                        Inl x \<Rightarrow> (Some x, w1, log_entry)
                      | Inr result \<Rightarrow> (None, w1, log_entry @ ctf_verdict e c result))))
      else (None, w, log_entry))"

definition notify_flag ::
  "('j, 'c) flag_env \<Rightarrow> store \<Rightarrow> unit_ref list \<Rightarrow> unit_ref \<Rightarrow> string \<Rightarrow> ('j, 'c) repl
     \<Rightarrow> exc_class option \<times> ('j, 'c) repl" where
  \<comment> \<open>\<open>on_flag\<close> from "First entry is special" on: the log entry, the submission, the
      clipboard, the alert; an exception ends it where it is raised\<close>
  "notify_flag e s chain unit flag w =
     (case flag_log_entry s chain flag of
        Inl x \<Rightarrow> (Some x, w)
      | Inr log_entry \<Rightarrow>
          (case ctf_submit e unit flag w log_entry of
             (Some x, w1, log_entry1) \<Rightarrow> (Some x, w1)
           | (None, w1, log_entry1) \<Rightarrow>
               (case paste_raises e flag of
                  Some x \<Rightarrow> (Some x, w1)
                | None \<Rightarrow>
                    (let w2 = w1\<lparr>paste_buffer := Some flag\<rparr>
                     in (None, w2\<lparr>alerts := alerts w2 @ [log_entry1]\<rparr>)))))"

text \<open>
  The result is \<open>None\<close> when the chain loop never ends; otherwise the exception that
  escapes, if any, and the state left behind.
\<close>

definition on_flag ::
  "('j, 'c) flag_env \<Rightarrow> store \<Rightarrow> ('j, 'c) repl \<Rightarrow> unit_ref \<Rightarrow> string
     \<Rightarrow> (exc_class option \<times> ('j, 'c) repl) option" where
  "on_flag e s w unit flag =
     (if duplicate_flag (flags (monitor w)) flag then Some (None, w)
      else
        (let w0 = w\<lparr>monitor := super_on_flag e (monitor w) unit flag\<rparr>
         in case reversed_chain s unit of
              None \<Rightarrow> None
            | Some chain \<Rightarrow> Some (notify_flag e s chain unit flag w0)))"

section \<open>Repl.update_prompt\<close>

text \<open>
  The manager as the prompt reads it: \<open>barrier.n_waiting\<close>, the list of worker threads
  (by identifier) and \<open>work.qsize()\<close>.
\<close>

record manager_view =
  n_waiting :: int
  threads :: "nat list"
  qsize :: int

definition digit_char :: "nat \<Rightarrow> char" where
  "digit_char d = char_of (48 + d)"

fun str_nat :: "nat \<Rightarrow> string" where
  "str_nat n = (if n < 10 then [digit_char n] else str_nat (n div 10) @ [digit_char (n mod 10)])"

definition str_int :: "int \<Rightarrow> string" where
  \<comment> \<open>\<open>str\<close> of a Python integer\<close>
  "str_int i = (if i < 0 then ''-'' @ str_nat (nat (- i)) else str_nat (nat i))"

definition waiting_text :: string where
  "waiting_text = Fore_YELLOW @ ''waiting'' @ Style_RESET_ALL"

definition running_text :: string where
  "running_text = Fore_GREEN @ ''running'' @ Style_RESET_ALL"

definition prompt_state :: "manager_view \<Rightarrow> string" where
  \<comment> \<open>the local \<open>state\<close> of \<open>update_prompt\<close>\<close>
  "prompt_state m =
     (if n_waiting m = int (length (threads m)) then waiting_text else running_text)"

definition update_prompt :: "manager_view \<Rightarrow> string" where
  \<comment> \<open>the value assigned to \<open>self.prompt\<close>\<close>
  "update_prompt m =
     Fore_CYAN @ ''katana'' @ Style_RESET_ALL @ '' - '' @ prompt_state m @ '' - '' @
     Fore_BLUE @ str_int (qsize m) @ '' units queued'' @ Style_RESET_ALL @ '' '' @
     NL @ Fore_GREEN @ ARROW @ '' '' @ Style_RESET_ALL"

section \<open>Repl._target_stop\<close>

text \<open>
  A target as the command sees it: \<open>hash.hexdigest()\<close> and the attribute
  \<open>completed\<close>. The command's state is \<open>manager.targets\<close> and the lines printed.
\<close>

record target_obj =
  hexdigest :: string
  completed :: bool

record targets_state =
  targets :: "target_obj list"
  poutput :: "string list"

definition already_completed :: "string \<Rightarrow> string" where
  "already_completed target =
     ''['' @ Fore_YELLOW @ ''!'' @ Style_RESET_ALL @ ''] '' @ target @ '': already completed''"

fun stop_matching :: "string \<Rightarrow> target_obj list \<Rightarrow> string list \<Rightarrow> target_obj list \<times> string list" where
  \<comment> \<open>\<open>for other in self.manager.targets: ...\<close>, the targets updated in place\<close>
  "stop_matching target [] out = ([], out)"
| "stop_matching target (other # rest) out =
     (if hexdigest other = target then
        (if completed other then
           (let (rest', out') = stop_matching target rest (out @ [already_completed target])
            in (other # rest', out'))
         else
           (let (rest', out') = stop_matching target rest out
            in (other\<lparr>completed := True\<rparr> # rest', out')))
      else
        (let (rest', out') = stop_matching target rest out
         in (other # rest', out')))"

fun target_stop :: "string list \<Rightarrow> targets_state \<Rightarrow> targets_state" where
  \<comment> \<open>\<open>for target in args.target: ...\<close>\<close>
  "target_stop [] st = st"
| "target_stop (target # more_args) st =
     (let (ts, out) = stop_matching target (targets st) (poutput st)
      in target_stop more_args (st\<lparr>targets := ts, poutput := out\<rparr>))"

definition stop_commands :: "string list list \<Rightarrow> targets_state \<Rightarrow> targets_state" where
  \<comment> \<open>one \<open>target stop\<close> command after another\<close>
  "stop_commands cmds st = fold target_stop cmds st"

section \<open>MonitoringEventHandler\<close>

text \<open>The event classes of \<open>watchdog.events\<close> and the \<open>event_type\<close> each one carries.\<close>

datatype event_class =
    FileCreatedEvent | DirCreatedEvent
  | FileModifiedEvent | DirModifiedEvent
  | FileDeletedEvent | DirDeletedEvent
  | FileMovedEvent | DirMovedEvent

datatype event_type = EVENT_TYPE_CREATED | EVENT_TYPE_MODIFIED | EVENT_TYPE_DELETED | EVENT_TYPE_MOVED

fun event_type_of :: "event_class \<Rightarrow> event_type" where
  "event_type_of FileCreatedEvent = EVENT_TYPE_CREATED"
| "event_type_of DirCreatedEvent = EVENT_TYPE_CREATED"
| "event_type_of FileModifiedEvent = EVENT_TYPE_MODIFIED"
| "event_type_of DirModifiedEvent = EVENT_TYPE_MODIFIED"
| "event_type_of FileDeletedEvent = EVENT_TYPE_DELETED"
| "event_type_of DirDeletedEvent = EVENT_TYPE_DELETED"
| "event_type_of FileMovedEvent = EVENT_TYPE_MOVED"
| "event_type_of DirMovedEvent = EVENT_TYPE_MOVED"

record fs_event =
  event_cls :: event_class
  src_path :: string

record watch_state =
  queued_targets :: "string list"
  watch_alerts :: "string list"

definition new_target_alert :: "string \<Rightarrow> string" where
  "new_target_alert path =
     ''['' @ Fore_GREEN @ ''!'' @ Style_RESET_ALL @ ''] '' @ ''new target queued: '' @ path"

definition on_created :: "fs_event \<Rightarrow> watch_state \<Rightarrow> watch_state" where
  "on_created event w =
     (if \<not> (event_cls event = FileCreatedEvent) then w
      else
        (let w1 = w\<lparr>queued_targets := queued_targets w @ [src_path event]\<rparr>
         in w1\<lparr>watch_alerts := watch_alerts w1 @ [new_target_alert (src_path event)]\<rparr>))"

definition dispatch :: "fs_event \<Rightarrow> watch_state \<Rightarrow> watch_state" where
  \<comment> \<open>\<open>FileSystemEventHandler.dispatch\<close> of watchdog: the event goes to the method of
      its \<open>event_type\<close>; the handler overrides \<open>on_created\<close> only, and the inherited
      \<open>on_any_event\<close>, \<open>on_modified\<close>, \<open>on_deleted\<close> and \<open>on_moved\<close> do nothing\<close>
  "dispatch event w =
     (case event_type_of (event_cls event) of
        EVENT_TYPE_CREATED \<Rightarrow> on_created event w
      | EVENT_TYPE_MODIFIED \<Rightarrow> w
      | EVENT_TYPE_DELETED \<Rightarrow> w
      | EVENT_TYPE_MOVED \<Rightarrow> w)"

section \<open>The base85 unit\<close>

text \<open>
  The calls the unit makes on the engine and on the artifact's handle, in the order made.
  \<open>recurse\<close> is given bytes in one branch and a file name in the other.
\<close>

datatype source = Data bytes | Path string

type_synonym handle = nat

datatype call =
    Recurse source
  | AddResults bytes
  | CreateArtifact string
  | Write handle bytes
  | Close handle

record b85_target =
  raw :: bytes
  is_printable :: bool

record b85_unit =
  target :: b85_target

text \<open>
  What the unit uses and does not define: the constructor of \<open>BaseUnit\<close> (the exception
  it raises, if any), \<open>base64.b85decode\<close>, \<open>utilities.isprintable\<close>,
  \<open>magic.from_buffer\<close>, \<open>utilities.is_good_magic\<close>, the file name and handle that
  \<open>create_artifact\<close> returns, and for every call on the engine or the handle the
  exception it raises, if any.
\<close>

record b85_env =
  base_init :: "b85_target \<Rightarrow> exc_class option"
  b85decode :: "bytes \<Rightarrow> exc_class + bytes"
  isprintable :: "bytes \<Rightarrow> bool"
  from_buffer :: "bytes \<Rightarrow> string"
  is_good_magic :: "string \<Rightarrow> bool"
  artifact :: "string \<times> handle"
  raises :: "call \<Rightarrow> exc_class option"

definition unit_init :: "b85_env \<Rightarrow> b85_target \<Rightarrow> exc_class + b85_unit" where
  "unit_init e t =
     (case base_init e t of
        Some x \<Rightarrow> Inl x
      | None \<Rightarrow> if \<not> is_printable t then Inl NotApplicable else Inr \<lparr>target = t\<rparr>)"

type_synonym progress = "exc_class option \<times> call list"

definition do_call :: "b85_env \<Rightarrow> call \<Rightarrow> progress \<Rightarrow> progress" where
  \<comment> \<open>the next statement is a call: skipped when an exception is already on its way,
      recorded otherwise, with the exception it raises\<close>
  "do_call e c p =
     (case fst p of
        Some x \<Rightarrow> p
      | None \<Rightarrow> (raises e c, snd p @ [c]))"

definition try_body :: "b85_env \<Rightarrow> b85_unit \<Rightarrow> call list \<Rightarrow> progress" where
  \<comment> \<open>the statements under \<open>try:\<close>\<close>
  "try_body e u tr =
     (case b85decode e (raw (target u)) of
        Inl x \<Rightarrow> (Some x, tr)
      | Inr result \<Rightarrow>
          if isprintable e result then
            (let p1 = do_call e (Recurse (Data result)) (None, tr)
             in do_call e (AddResults result) p1)
          else
            (let magic_info = from_buffer e result
             in if is_good_magic e magic_info then
                  (let p1 = do_call e (AddResults result) (None, tr);
                       p2 = do_call e (CreateArtifact ''decoded'') p1;
                       (filename, handle) = artifact e;
                       p3 = do_call e (Write handle result) p2;
                       p4 = do_call e (Close handle) p3
                   in do_call e (Recurse (Path filename)) p4)
                else (None, tr)))"

definition evaluate :: "b85_env \<Rightarrow> b85_unit \<Rightarrow> call list \<Rightarrow> progress" where
  \<comment> \<open>\<open>except (UnicodeDecodeError, binascii.Error, ValueError): return\<close>\<close>
  "evaluate e u tr =
     (case try_body e u tr of
        (Some x, tr') \<Rightarrow>
          if isinstance x [UnicodeDecodeError, BinasciiError, ValueError] then (None, tr')
          else (Some x, tr')
      | (None, tr') \<Rightarrow> (None, tr'))"

definition handle_closed :: "b85_env \<Rightarrow> call list \<Rightarrow> bool" where
  \<comment> \<open>the handle that \<open>create_artifact\<close> returns has been closed\<close>
  "handle_closed e tr \<longleftrightarrow> Close (snd (artifact e)) \<in> set tr"

section \<open>base64.b85decode of the standard library\<close>

text \<open>
  The decoder that the unit calls, as CPython's \<open>base64\<close> module writes it, for bytes
  input: the input is padded with \<open>~\<close> to a multiple of five, every group of five
  digits is a number in base 85 packed into four bytes, and as many bytes as were padded
  are cut from the end. A byte outside the alphabet and a group beyond 32 bits both raise
  \<open>ValueError\<close>. The examples below use it as the unit's \<open>b85decode\<close>.
\<close>

definition b85alphabet :: bytes where
  "b85alphabet =
     map of_char
       (''0123456789ABCDEFGHIJKLMNOPQRSTUVWXYZabcdefghijklmnopqrstuvwxyz'' @
        ''!#$%&()*+-;<=>?@^_'' @ [CHR 0x60] @ ''{|}~'')"

fun first_index :: "nat \<Rightarrow> bytes \<Rightarrow> nat \<Rightarrow> nat option" where
  "first_index c [] i = None"
| "first_index c (x # xs) i = (if x = c then Some i else first_index c xs (i + 1))"

definition b85dec :: "nat \<Rightarrow> nat option" where
  \<comment> \<open>the table \<open>_b85dec\<close>: the position of a byte in the alphabet, \<open>None\<close> outside it\<close>
  "b85dec c = first_index c b85alphabet 0"

fun chunk_value :: "bytes \<Rightarrow> nat \<Rightarrow> nat option" where
  \<comment> \<open>\<open>for c in chunk: acc = acc * 85 + _b85dec[c]\<close>; \<open>None\<close> for a bad character\<close>
  "chunk_value [] acc = Some acc"
| "chunk_value (c # cs) acc =
     (case b85dec c of None \<Rightarrow> None | Some d \<Rightarrow> chunk_value cs (acc * 85 + d))"

definition packI :: "nat \<Rightarrow> bytes" where
  \<comment> \<open>\<open>struct.Struct('!I').pack\<close> of a number below \<open>2 ^ 32\<close>\<close>
  "packI acc = [acc div 16777216 mod 256, acc div 65536 mod 256, acc div 256 mod 256, acc mod 256]"

fun decode_chunks :: "bytes \<Rightarrow> exc_class + bytes" where
  "decode_chunks [] = Inr []"
| "decode_chunks (c # cs) =
     (case chunk_value (take 5 (c # cs)) 0 of
        None \<Rightarrow> Inl ValueError
      | Some acc \<Rightarrow>
          if acc > 4294967295 then Inl ValueError
          else (case decode_chunks (drop 4 cs) of
                  Inl x \<Rightarrow> Inl x
                | Inr out \<Rightarrow> Inr (packI acc @ out)))"

definition base64_b85decode :: "bytes \<Rightarrow> exc_class + bytes" where
  "base64_b85decode b =
     (let padding = (5 - length b mod 5) mod 5
      in case decode_chunks (b @ replicate padding 126) of
           Inl x \<Rightarrow> Inl x
         | Inr result \<Rightarrow>
             Inr (if padding \<noteq> 0 then take (length result - padding) result else result))"

section \<open>Example values\<close>

text \<open>
  Three units in a line: unit 0 works on the root target 0, unit 1 on the target 1 that
  unit 0 produced, unit 2 on the target 2 that unit 1 produced. The parent of every
  other target is the unit of the same number, a chain that never reaches a root.
\<close>

definition example_store :: store where
  "example_store =
     \<lparr>unit_target = (\<lambda>u. u),
      target_parent = (\<lambda>t. if t = 0 then None else if t < 3 then Some (t - 1) else Some t),
      unit_str = (\<lambda>u. if u = 0 then ''unzip'' else if u = 1 then ''strings'' else ''base85''),
      target_str = (\<lambda>t. if t = 0 then ''a.zip'' else if t = 1 then ''note'' else ''blob'')\<rparr>"

text \<open>
  A monitor whose base class appends the pair to \<open>self.flags\<close>, with no CTF section and
  a clipboard that takes every flag.
\<close>

definition example_flag_env :: "(unit, nat) flag_env" where
  "example_flag_env =
     \<lparr>super_on_flag = (\<lambda>m u f. m\<lparr>flags := flags m @ [(u, f)]\<rparr>),
      config = Map.empty,
      origin_ident = (\<lambda>u. Inr ''origin''),
      ctf_targets = Map.empty,
      submit_result = (\<lambda>c f. Inr False),
      title = (\<lambda>c. ''challenge''),
      paste_raises = (\<lambda>f. None)\<rparr>"

definition example_repl :: "(unit, nat) repl" where
  "example_repl =
     \<lparr>monitor = \<lparr>flags = [(0, ''FLAG{x}'')], json_state = ()\<rparr>,
      paste_buffer = Some ''FLAG{x}'',
      alerts = [],
      submitted = []\<rparr>"

text \<open>Two workers, both waiting on the barrier, and five units still in the queue.\<close>

definition example_manager :: manager_view where
  "example_manager = \<lparr>n_waiting = 2, threads = [0, 1], qsize = 5\<rparr>"

text \<open>Two targets known to the manager: the first completed already, the second not.\<close>

definition example_targets :: targets_state where
  "example_targets =
     \<lparr>targets = [\<lparr>hexdigest = ''aa'', completed = True\<rparr>, \<lparr>hexdigest = ''bb'', completed = False\<rparr>],
      poutput = []\<rparr>"

text \<open>
  An environment for the base85 unit: the decoder above, printable meaning the bytes of
  \<open>string.printable\<close>, the artifact \<open>decoded\<close> on handle 3, and every call returning
  normally. Of file types it knows one: bytes that start with \<open>GIF89a\<close> and the sizes
  1 and 1 are a GIF image, which is a good type; everything else is \<open>data\<close>, which is
  not (so is the bare signature of a PNG file, eight bytes with no header after them).
\<close>

definition printable_byte :: "nat \<Rightarrow> bool" where
  "printable_byte c \<longleftrightarrow> (32 \<le> c \<and> c < 127) \<or> (9 \<le> c \<and> c \<le> 13)"

definition gif_header :: bytes where
  \<comment> \<open>\<open>GIF89a\<close>, width 1, height 1, no colour table\<close>
  "gif_header = [71, 73, 70, 56, 57, 97, 1, 0, 1, 0, 0, 0]"

definition example_b85_env :: b85_env where
  "example_b85_env =
     \<lparr>base_init = (\<lambda>t. None),
      b85decode = base64_b85decode,
      isprintable = list_all printable_byte,
      from_buffer = (\<lambda>b. if take 10 b = take 10 gif_header
                           then ''GIF image data, version 89a, 1 x 1'' else ''data''),
      is_good_magic = (\<lambda>m. m = ''GIF image data, version 89a, 1 x 1''),
      artifact = (''decoded'', 3),
      raises = (\<lambda>c. None)\<rparr>"

text \<open>
  The same environment with the disk full. The handle is buffered: a write of more than
  the 8192 bytes of the buffer goes to the file at once and raises \<open>OSError\<close>; a
  smaller write stays in the buffer, and it is \<open>close\<close> that raises when it flushes,
  after which the file is closed all the same.
\<close>

definition disk_full_env :: b85_env where
  "disk_full_env =
     example_b85_env\<lparr>raises :=
       (\<lambda>c. case c of
               Write h b \<Rightarrow> if length b > 8192 then Some OSError else None
             | Close h \<Rightarrow> Some OSError
             | _ \<Rightarrow> None)\<rparr>"

text \<open>
  Targets: the base85 text of \<open>flag{b85}\<close>; the base85 text of the eight bytes of the
  PNG signature; \<open>a,b\<close>, which holds a byte outside the alphabet; bytes that are not
  printable; the base85 text of the GIF header alone; and the base85 text of a GIF file
  of 1048588 bytes, the header and then a megabyte of zero bytes (\<open>00000\<close> is the
  base85 text of four zero bytes).
\<close>

definition flag_target :: b85_target where
  "flag_target = \<lparr>raw = map of_char ''W^7?+dtx{>eE'', is_printable = True\<rparr>"

definition png_target :: b85_target where
  "png_target = \<lparr>raw = map of_char ''iBL{Q4GJ0x'', is_printable = True\<rparr>"

definition comma_target :: b85_target where
  "comma_target = \<lparr>raw = map of_char ''a,b'', is_printable = True\<rparr>"

definition binary_target :: b85_target where
  "binary_target = \<lparr>raw = [137, 80, 78, 71], is_printable = False\<rparr>"

definition small_gif_target :: b85_target where
  "small_gif_target = \<lparr>raw = map of_char ''M@dFFIbi_+0RR91'', is_printable = True\<rparr>"

definition gif_target :: b85_target where
  "gif_target =
     \<lparr>raw = map of_char ''M@dFFIbi_+0RR91'' @ concat (replicate 262144 (map of_char ''00000'')),
      is_printable = True\<rparr>"

definition gif_file :: bytes where
  "gif_file = gif_header @ concat (replicate 262144 [0, 0, 0, 0])"

section \<open>Properties of the chain walk\<close>

lemma build_chain_None: "build_chain s None chain = Some chain"
  by (simp add: build_chain.simps)

lemma build_chain_Some:
  "build_chain s (Some u) chain = build_chain s (parent_link s u) (chain @ [u])"
  by (subst build_chain.simps) simp



lemma walk_up_nonempty: "walk_up s u us \<Longrightarrow> us \<noteq> [] \<and> hd us = u"
  by (induction rule: walk_up.induct) auto

lemma walk_up_last_root: "walk_up s u us \<Longrightarrow> parent_link s (last us) = None"
  by (induction rule: walk_up.induct) (auto dest: walk_up_nonempty)

lemma walk_up_links:
  "walk_up s u us \<Longrightarrow> Suc i < length us \<Longrightarrow> parent_link s (us ! i) = Some (us ! Suc i)"
proof (induction arbitrary: i rule: walk_up.induct)
  case (walk_root u)
  then show ?case by simp
next
  case (walk_step u p ps)
  from walk_step.hyps(2) have ps: "ps \<noteq> []" "hd ps = p"
    by (auto dest: walk_up_nonempty)
  show ?case
  proof (cases i)
    case 0
    with ps walk_step.hyps(1) show ?thesis by (simp add: hd_conv_nth)
  next
    case (Suc j)
    with walk_step.prems have "Suc j < length ps" by simp
    from walk_step.IH [OF this] Suc show ?thesis by simp
  qed
qed

lemma print_chain_concat:
  "print_chain s chain log =
     log @ concat (map (\<lambda>n. chain_line s n (chain ! n)) [1..<length chain])"
proof -
  have "fold (\<lambda>n log. log @ f n) ns log = log @ concat (map f ns)"
    for f :: "nat \<Rightarrow> string" and ns log
    by (induction ns arbitrary: log) simp_all
  then show ?thesis by (simp add: print_chain_def)
qed





lemma example_store_links:
  "parent_link example_store 2 = Some 1"
  "parent_link example_store 1 = Some 0"
  "parent_link example_store 0 = None"
  by (simp_all add: parent_link_def example_store_def)

section \<open>The printed text, character by character\<close>

lemma entry_text_chars:
  "entry_text s u =
     CHR 0x1B # ''[35m'' @ unit_str s u @ CHR 0x1B # ''[0m('' @
     CHR 0x1B # ''[31m'' @ target_str s (unit_target s u) @ CHR 0x1B # ''[0m)''"
  by (simp add: entry_text_def Fore_MAGENTA_def Fore_RED_def Style_RESET_ALL_def ESC_def)

lemma solution_first_chars: "solution_first s u = entry_text s u @ [CHR 0x0A]"
  by (simp add: solution_first_def NL_def)



lemma flag_line_chars:
  "flag_line n flag =
     '' '' @ replicate n (CHR '' '') @ CHR 0x1B # ''[32m'' @ CHR 0x1B # ''[1m'' @ flag @
     CHR 0x1B # ''[0m - (copied)''"
  by (simp add: flag_line_def Fore_GREEN_def Style_BRIGHT_def Style_RESET_ALL_def ESC_def)

section \<open>Properties of on\_flag\<close>

lemma flag_log_entry_text:
  assumes "chain \<noteq> []"
  shows "flag_log_entry s chain flag =
           Inr (flag_first s (hd chain) @
                concat (map (\<lambda>n. chain_line s n (chain ! n)) [1..<length chain]) @
                flag_line (length chain) flag)"
  using assms by (cases chain) (simp_all add: flag_log_entry_def print_chain_concat)

lemma ctf_submit_returns:
  assumes "ctf_submit e unit flag w l = (None, w1, l1)"
  shows "monitor w1 = monitor w \<and> paste_buffer w1 = paste_buffer w \<and> alerts w1 = alerts w \<and>
         (\<exists>ctf. l1 = l @ ctf)"
  using assms
  by (auto simp: ctf_submit_def Let_def split: if_splits sum.splits option.splits)

lemma notify_flag_returns:
  assumes "notify_flag e s chain unit flag w = (None, w')"
  shows "chain \<noteq> [] \<and> monitor w' = monitor w \<and> paste_buffer w' = Some flag \<and>
         (\<exists>ctf. alerts w' = alerts w @
             [flag_first s (hd chain) @
              concat (map (\<lambda>n. chain_line s n (chain ! n)) [1..<length chain]) @
              flag_line (length chain) flag @ ctf])"
proof -
  have ne: "chain \<noteq> []"
    using assms by (auto simp: notify_flag_def flag_log_entry_def)
  let ?l = "flag_first s (hd chain) @
              concat (map (\<lambda>n. chain_line s n (chain ! n)) [1..<length chain]) @
              flag_line (length chain) flag"
  have l: "flag_log_entry s chain flag = Inr ?l"
    using ne by (rule flag_log_entry_text)
  obtain x w1 l1 where c: "ctf_submit e unit flag w ?l = (x, w1, l1)"
    by (cases "ctf_submit e unit flag w ?l")
  with assms l have x: "x = None"
    by (cases x) (simp_all add: notify_flag_def)
  with assms l c have p: "paste_raises e flag = None"
    by (cases "paste_raises e flag") (simp_all add: notify_flag_def)
  from assms l c x p have w': "w' = w1\<lparr>paste_buffer := Some flag, alerts := alerts w1 @ [l1]\<rparr>"
    by (simp add: notify_flag_def Let_def)
  from ctf_submit_returns [of e unit flag w ?l w1 l1] c x
  obtain ctf where "monitor w1 = monitor w" "alerts w1 = alerts w" "l1 = ?l @ ctf"
    by auto
  with ne w' show ?thesis by simp
qed


text \<open>
  With a base class that appends the pair to \<open>self.flags\<close>, a flag value that
  \<open>on_flag\<close> has handled once is ignored whenever it is reported again, by any unit.
\<close>

lemma on_flag_repeat_ignored:
  assumes app: "\<And>m u f. flags (super_on_flag e m u f) = flags m @ [(u, f)]"
    and first: "on_flag e s w unit flag = Some (None, w')"
  shows "on_flag e s w' unit2 flag = Some (None, w')"
proof (cases "duplicate_flag (flags (monitor w)) flag")
  case True
  with first have "w' = w" by (simp add: on_flag_def)
  with True show ?thesis by (simp add: on_flag_def)
next
  case False
  with first obtain chain where
    n: "notify_flag e s chain unit flag
          (w\<lparr>monitor := super_on_flag e (monitor w) unit flag\<rparr>) = (None, w')"
    by (auto simp: on_flag_def Let_def split: option.splits)
  from notify_flag_returns [OF n] have "flags (monitor w') = flags (monitor w) @ [(unit, flag)]"
    by (simp add: app)
  then have "\<exists>f \<in> set (flags (monitor w')). snd f = flag" by simp
  then have "duplicate_flag (flags (monitor w')) flag"
    by (auto simp: duplicate_flag_def filter_empty_conv)
  then show ?thesis by (simp add: on_flag_def)
qed

text \<open>
  A clipboard that refuses the flag: \<open>on_flag\<close> has recorded the flag, raises, and shows
  no alert.
\<close>

lemma on_flag_clipboard_raises:
  assumes "\<not> duplicate_flag (flags (monitor w)) flag"
    and "reversed_chain s unit = Some chain" and "chain \<noteq> []"
    and "\<not> auto_submit e" and "paste_raises e flag = Some x"
  shows "on_flag e s w unit flag =
           Some (Some x, w\<lparr>monitor := super_on_flag e (monitor w) unit flag\<rparr>)"
  using assms flag_log_entry_text [OF assms(3), of s flag]
  by (simp add: on_flag_def notify_flag_def ctf_submit_def)

text \<open>
  C1. When \<open>self.flags\<close> already holds a pair with this flag value, whatever unit
  reported it, \<open>on_flag\<close> returns at once: no exception, and the whole state (the
  monitor with its flags, the paste buffer, the alerts, the submissions) is as before.
  The unit of the new report and its chain play no part.
\<close>

theorem on_flag_duplicate_ignored:
  assumes "\<exists>f \<in> set (flags (monitor w)). snd f = flag"
  shows "on_flag e s w unit flag = Some (None, w)"
proof -
  from assms have "filter (\<lambda>f. snd f = flag) (flags (monitor w)) \<noteq> []"
    by (auto simp: filter_empty_conv)
  then have "duplicate_flag (flags (monitor w)) flag"
    by (simp add: duplicate_flag_def)
  then show ?thesis by (simp add: on_flag_def)
qed

theorem on_flag_duplicate_ignored_witness:
  "on_flag example_flag_env example_store example_repl 2 ''FLAG{x}'' = Some (None, example_repl)"
proof -
  have "\<exists>f \<in> set (flags (monitor example_repl)). snd f = ''FLAG{x}''"
    by (simp add: example_repl_def)
  then show ?thesis by (rule on_flag_duplicate_ignored)
qed

section \<open>Properties of generate\_solution\<close>



text \<open>
  C8. For a unit whose target has no parent the loop stops after one step: the chain is
  the unit alone, and the solution is, character by character, the entry of this unit
  with its target, followed by the line that holds the flag value. Nothing is raised and
  the walk ends.
\<close>

theorem solution_of_root_unit:
  assumes "parent_link s unit = None"
  shows "reversed_chain s unit = Some [unit] \<and>
         generate_solution s (unit, flag) =
           Some (Inr (CHR 0x1B # ''[35m'' @ unit_str s unit @ CHR 0x1B # ''[0m('' @
                      CHR 0x1B # ''[31m'' @ target_str s (unit_target s unit) @
                      CHR 0x1B # ''[0m)'' @ [CHR 0x0A] @
                      ''  '' @ CHR 0x1B # ''[32m'' @ CHR 0x1B # ''[1m'' @ flag @
                      CHR 0x1B # ''[0m - (copied)''))"
proof -
  have "build_chain s (Some unit) [] = Some [unit]"
    using assms by (simp add: build_chain_Some build_chain_None)
  then have c: "reversed_chain s unit = Some [unit]"
    by (simp add: reversed_chain_def)
  then show ?thesis
    by (simp add: generate_solution_def solution_text_def print_chain_concat
        solution_first_chars flag_line_chars entry_text_chars)
qed

theorem solution_of_root_unit_witness:
  "parent_link example_store 0 = None \<and>
   reversed_chain example_store 0 = Some [0] \<and>
   generate_solution example_store (0, ''FLAG{x}'') =
     Some (Inr
       (CHR 0x1B # ''[35munzip'' @
        CHR 0x1B # ''[0m('' @
        CHR 0x1B # ''[31ma.zip'' @
        CHR 0x1B # ''[0m)'' @
        CHR 0x0A # ''  '' @
        CHR 0x1B # ''[32m'' @
        CHR 0x1B # ''[1mFLAG{x}'' @
        CHR 0x1B # ''[0m - (copied)''))"
proof -
  have n: "unit_str example_store 0 = ''unzip''"
    "target_str example_store (unit_target example_store 0) = ''a.zip''"
    by (simp_all add: example_store_def)
  from solution_of_root_unit [OF example_store_links(3), of "''FLAG{x}''"]
  show ?thesis by (simp add: example_store_links n)
qed

section \<open>Properties of update\_prompt\<close>

text \<open>
  C3 as stated fails: with both workers waiting on the barrier and five units in the
  queue, the prompt says waiting although the queue is not empty.
\<close>

theorem prompt_state_queue_counterexample:
  "\<not> (prompt_state example_manager = waiting_text \<longleftrightarrow>
        n_waiting example_manager = int (length (threads example_manager)) \<and>
        qsize example_manager = 0)"
  by (simp add: prompt_state_def example_manager_def)

text \<open>
  C3, amended. The prompt says waiting exactly when the number of workers waiting on the
  barrier equals the number of threads, and running otherwise; the size of the queue is
  shown in the prompt as a number and has no part in the state.
\<close>

theorem prompt_state_waiting_iff:
  "(prompt_state m = waiting_text \<longleftrightarrow> n_waiting m = int (length (threads m))) \<and>
   (prompt_state m = running_text \<longleftrightarrow> n_waiting m \<noteq> int (length (threads m))) \<and>
   update_prompt m =
     Fore_CYAN @ ''katana'' @ Style_RESET_ALL @ '' - '' @ prompt_state m @ '' - '' @
     Fore_BLUE @ str_int (qsize m) @ '' units queued'' @ Style_RESET_ALL @ '' '' @
     NL @ Fore_GREEN @ ARROW @ '' '' @ Style_RESET_ALL"
  by (simp add: prompt_state_def update_prompt_def waiting_text_def running_text_def
      Fore_YELLOW_def Fore_GREEN_def)

section \<open>Properties of \_target\_stop\<close>

lemma stop_matching_targets:
  "fst (stop_matching arg ts out) =
     map (\<lambda>other. if hexdigest other = arg \<and> \<not> completed other
                    then other\<lparr>completed := True\<rparr> else other) ts"
  by (induction ts arbitrary: out) (auto simp: split_beta Let_def)

lemma stop_matching_output:
  "snd (stop_matching arg ts out) =
     out @ map (\<lambda>other. already_completed arg)
             (filter (\<lambda>other. hexdigest other = arg \<and> completed other) ts)"
  by (induction ts arbitrary: out) (auto simp: split_beta Let_def)

lemma target_stop_targets:
  "targets (target_stop args st) =
     map (\<lambda>other. if hexdigest other \<in> set args \<and> \<not> completed other
                    then other\<lparr>completed := True\<rparr> else other) (targets st)"
proof (induction args arbitrary: st)
  case Nil
  then show ?case by (simp add: map_idI)
next
  case (Cons a args)
  show ?case
    by (simp add: split_beta Cons.IH stop_matching_targets comp_def)
qed

lemma target_stop_monotone_step:
  "i < length (targets st) \<Longrightarrow> completed (targets st ! i)
     \<Longrightarrow> completed (targets (target_stop args st) ! i)"
  by (simp add: target_stop_targets)

lemma stop_commands_length:
  "length (targets (stop_commands cmds st)) = length (targets st)"
  unfolding stop_commands_def
  by (induction cmds arbitrary: st) (simp_all add: target_stop_targets)

lemma stop_commands_monotone:
  "i < length (targets st) \<Longrightarrow> completed (targets st ! i)
     \<Longrightarrow> completed (targets (stop_commands cmds st) ! i)"
  unfolding stop_commands_def
proof (induction cmds arbitrary: st)
  case Nil
  then show ?case by simp
next
  case (Cons c cmds)
  have "i < length (targets (target_stop c st))"
    using Cons.prems(1) by (simp add: target_stop_targets)
  moreover have "completed (targets (target_stop c st) ! i)"
    using Cons.prems by (rule target_stop_monotone_step)
  ultimately show ?case using Cons.IH by simp
qed

text \<open>
  C9. One stop command changes a target only when its digest is among the arguments and
  its \<open>completed\<close> is false, and the change is to set \<open>completed\<close> to true; every other
  target is left as it is. Over any sequence of stop commands the list of targets keeps
  its length and a target that is completed stays completed: the flag goes from false to
  true at most once and never back. The assignment in \<open>_target_stop\<close> is the only write
  to \<open>completed\<close> in the module.
\<close>

theorem target_stop_completed_monotone:
  "targets (target_stop args st) =
     map (\<lambda>other. if hexdigest other \<in> set args \<and> \<not> completed other
                    then other\<lparr>completed := True\<rparr> else other) (targets st) \<and>
   length (targets (stop_commands cmds st)) = length (targets st) \<and>
   (\<forall>i < length (targets st).
      completed (targets st ! i) \<longrightarrow> completed (targets (stop_commands cmds st) ! i))"
proof (intro conjI allI impI)
  show "targets (target_stop args st) =
     map (\<lambda>other. if hexdigest other \<in> set args \<and> \<not> completed other
                    then other\<lparr>completed := True\<rparr> else other) (targets st)"
    by (rule target_stop_targets)
  show "length (targets (stop_commands cmds st)) = length (targets st)"
    by (rule stop_commands_length)
  fix i
  assume "i < length (targets st)" and "completed (targets st ! i)"
  then show "completed (targets (stop_commands cmds st) ! i)"
    by (rule stop_commands_monotone)
qed

theorem target_stop_completed_monotone_witness:
  "targets (target_stop [''bb''] example_targets) =
     [\<lparr>hexdigest = ''aa'', completed = True\<rparr>, \<lparr>hexdigest = ''bb'', completed = True\<rparr>] \<and>
   length (targets (stop_commands [[''aa''], [''bb'', ''aa'']] example_targets)) = 2 \<and>
   completed (targets example_targets ! 0) \<and>
   completed (targets (stop_commands [[''aa''], [''bb'', ''aa'']] example_targets) ! 0)"
  using target_stop_completed_monotone
    [of "[''bb'']" example_targets "[[''aa''], [''bb'', ''aa'']]"]
  by (simp add: example_targets_def)

section \<open>Properties of the monitoring handler\<close>

text \<open>
  C10. An event delivered to the handler queues a target exactly when it is a
  \<open>FileCreatedEvent\<close>, and then it queues the event's path; any other event, the
  creation of a directory included, leaves the state as it was. The same holds of
  \<open>on_created\<close> called directly.
\<close>

theorem dispatch_queues_iff_file_created:
  "(queued_targets (dispatch event w) \<noteq> queued_targets w
      \<longleftrightarrow> event_cls event = FileCreatedEvent) \<and>
   (dispatch event w = w \<longleftrightarrow> event_cls event \<noteq> FileCreatedEvent) \<and>
   (on_created event w = w \<longleftrightarrow> event_cls event \<noteq> FileCreatedEvent) \<and>
   queued_targets (dispatch event w) =
     (if event_cls event = FileCreatedEvent then queued_targets w @ [src_path event]
      else queued_targets w)"
  by (cases "event_cls event")
    (auto simp: dispatch_def on_created_def Let_def dest: arg_cong [where f = queued_targets])

section \<open>Properties of the base85 unit\<close>

lemma tilde_padding:
  "replicate 2 (126::nat) = [126, 126]"
  "replicate 3 (126::nat) = [126, 126, 126]"
  by (simp_all add: numeral_2_eq_2 numeral_3_eq_3)

lemma decode_comma_target: "base64_b85decode (raw comma_target) = Inl ValueError"
  by (simp add: base64_b85decode_def comma_target_def b85dec_def b85alphabet_def
      tilde_padding)

lemma decode_flag_target:
  "base64_b85decode (raw flag_target) = Inr [102, 108, 97, 103, 123, 98, 56, 53, 125]"
  by (simp add: base64_b85decode_def flag_target_def b85dec_def b85alphabet_def packI_def
      tilde_padding)

lemma decode_png_target:
  "base64_b85decode (raw png_target) = Inr [137, 80, 78, 71, 13, 10, 26, 10]"
  by (simp add: base64_b85decode_def png_target_def b85dec_def b85alphabet_def packI_def)

lemma caught_classes:
  "x \<in> {UnicodeDecodeError, BinasciiError, ValueError}
     \<Longrightarrow> isinstance x [UnicodeDecodeError, BinasciiError, ValueError]"
  by (auto simp: isinstance_def)

lemma try_body_printable:
  assumes "b85decode e (raw (target u)) = Inr result" and "isprintable e result"
  shows "try_body e u [] =
           (case raises e (Recurse (Data result)) of
              Some x \<Rightarrow> (Some x, [Recurse (Data result)])
            | None \<Rightarrow> (raises e (AddResults result), [Recurse (Data result), AddResults result]))"
  using assms by (simp add: try_body_def do_call_def split: option.splits)

lemma snd_evaluate: "snd (evaluate e u tr) = snd (try_body e u tr)"
  by (cases "try_body e u tr") (auto simp: evaluate_def split: option.splits)

lemma try_body_write_raises:
  assumes "b85decode e (raw (target u)) = Inr result" and "\<not> isprintable e result"
    and "is_good_magic e (from_buffer e result)"
    and "raises e (AddResults result) = None" and "raises e (CreateArtifact ''decoded'') = None"
    and "raises e (Write (snd (artifact e)) result) = Some x"
  shows "try_body e u [] =
           (Some x, [AddResults result, CreateArtifact ''decoded'',
                     Write (snd (artifact e)) result])"
  using assms by (simp add: try_body_def do_call_def split_beta)

lemma write_raises_handle_open:
  assumes "b85decode e (raw (target u)) = Inr result" and "\<not> isprintable e result"
    and "is_good_magic e (from_buffer e result)"
    and "raises e (AddResults result) = None" and "raises e (CreateArtifact ''decoded'') = None"
    and "raises e (Write (snd (artifact e)) result) = Some x"
  shows "\<not> handle_closed e (snd (evaluate e u []))"
  using try_body_write_raises [OF assms] by (simp add: snd_evaluate handle_closed_def)

lemma decode_zero_groups:
  "decode_chunks (concat (replicate n [48, 48, 48, 48, 48])) =
     Inr (concat (replicate n [0, 0, 0, 0]))"
proof (induction n)
  case 0
  then show ?case by simp
next
  case (Suc n)
  have z: "b85dec 48 = Some 0"
    by (simp add: b85dec_def b85alphabet_def)
  show ?case
    by (simp add: Suc.IH z packI_def)
qed

lemma decode_small_gif_target: "base64_b85decode (raw small_gif_target) = Inr gif_header"
  by (simp add: base64_b85decode_def small_gif_target_def b85dec_def b85alphabet_def packI_def
      gif_header_def)

lemma decode_gif_target: "base64_b85decode (raw gif_target) = Inr gif_file"
proof -
  have len: "length (raw gif_target) = 1310735"
    by (simp add: gif_target_def length_concat sum_list_replicate)
  have d: "decode_chunks (raw gif_target) = Inr gif_file"
    by (simp add: gif_target_def gif_file_def gif_header_def decode_zero_groups b85dec_def
        b85alphabet_def packI_def)
  show ?thesis
    by (simp add: base64_b85decode_def len d)
qed

lemma gif_file_facts:
  "length gif_file = 1048588"
  "\<not> list_all printable_byte gif_file"
  "take 10 gif_file = take 10 gif_header"
  by (simp_all add: gif_file_def gif_header_def length_concat sum_list_replicate
      printable_byte_def)

text \<open>
  The bare PNG signature is not printable and not of a good type: the unit does nothing
  with it. The GIF header alone is written and closed; on the full disk it is the close
  that raises, and the handle is closed.
\<close>

lemma evaluate_png_signature:
  "evaluate example_b85_env \<lparr>target = png_target\<rparr> [] = (None, [])"
  by (simp add: evaluate_def try_body_def example_b85_env_def decode_png_target
      printable_byte_def gif_header_def)

lemma evaluate_close_raises:
  "evaluate disk_full_env \<lparr>target = small_gif_target\<rparr> [] =
     (Some OSError,
      [AddResults gif_header, CreateArtifact ''decoded'', Write 3 gif_header, Close 3]) \<and>
   handle_closed disk_full_env (snd (evaluate disk_full_env \<lparr>target = small_gif_target\<rparr> []))"
proof -
  have a: "\<not> list_all printable_byte gif_header" "length gif_header = 12"
    by (simp_all add: gif_header_def printable_byte_def)
  show ?thesis
    by (simp add: evaluate_def try_body_def do_call_def example_b85_env_def disk_full_env_def
        decode_small_gif_target a isinstance_def handle_closed_def)
qed

text \<open>
  C5. When the constructor of the base class returns, the unit's constructor raises
  \<open>NotApplicable\<close> for a target that is not printable and returns the unit, holding
  the target, for one that is.
\<close>

theorem unit_init_printable:
  assumes "base_init e t = None"
  shows "unit_init e t = (if is_printable t then Inr \<lparr>target = t\<rparr> else Inl NotApplicable)"
  using assms by (simp add: unit_init_def)

theorem unit_init_printable_witness:
  "unit_init example_b85_env binary_target = Inl NotApplicable \<and>
   unit_init example_b85_env flag_target = Inr \<lparr>target = flag_target\<rparr>"
proof -
  have h: "base_init example_b85_env t = None" for t
    by (simp add: example_b85_env_def)
  from unit_init_printable [OF h, of binary_target] unit_init_printable [OF h, of flag_target]
  show ?thesis by (simp add: binary_target_def flag_target_def)
qed

text \<open>
  C6. When the decoder raises \<open>UnicodeDecodeError\<close>, \<open>binascii.Error\<close> or
  \<open>ValueError\<close>, \<open>evaluate\<close> returns normally and has made no call: nothing is added
  to the calls made before it, and no exception leaves it.
\<close>

theorem evaluate_decode_error:
  assumes "b85decode e (raw (target u)) = Inl x"
    and "x \<in> {UnicodeDecodeError, BinasciiError, ValueError}"
  shows "evaluate e u tr = (None, tr)"
  using assms(1) caught_classes [OF assms(2)] by (simp add: evaluate_def try_body_def)

theorem evaluate_decode_error_witness:
  "is_printable comma_target \<and>
   evaluate example_b85_env \<lparr>target = comma_target\<rparr> [] = (None, [])"
proof -
  have d: "b85decode example_b85_env (raw (target \<lparr>target = comma_target\<rparr>)) = Inl ValueError"
    by (simp add: example_b85_env_def decode_comma_target)
  have "evaluate example_b85_env \<lparr>target = comma_target\<rparr> [] = (None, [])"
    by (rule evaluate_decode_error [OF d]) simp
  then show ?thesis by (simp add: comma_target_def)
qed

text \<open>
  C7. When the decoder returns printable bytes, the first call of \<open>evaluate\<close> is
  \<open>recurse\<close> on exactly these bytes and the only call that can follow is
  \<open>add_results\<close> on exactly these bytes, so no artifact is created or written; when
  \<open>recurse\<close> returns normally the two calls are made, in this order.
\<close>

theorem evaluate_printable_result:
  assumes "b85decode e (raw (target u)) = Inr result" and "isprintable e result"
  shows "\<exists>rest. snd (evaluate e u []) = Recurse (Data result) # rest \<and>
           set rest \<subseteq> {AddResults result} \<and>
           (raises e (Recurse (Data result)) = None \<longrightarrow> rest = [AddResults result])"
  using try_body_printable [OF assms] by (simp add: snd_evaluate split: option.splits)

theorem evaluate_printable_result_witness:
  "evaluate example_b85_env \<lparr>target = flag_target\<rparr> [] =
     (None, [Recurse (Data [102, 108, 97, 103, 123, 98, 56, 53, 125]),
             AddResults [102, 108, 97, 103, 123, 98, 56, 53, 125]])"
proof -
  let ?result = "[102, 108, 97, 103, 123, 98, 56, 53, 125] :: bytes"
  let ?u = "\<lparr>target = flag_target\<rparr>"
  have d: "b85decode example_b85_env (raw (target ?u)) = Inr ?result"
    by (simp add: example_b85_env_def decode_flag_target)
  have p: "isprintable example_b85_env ?result"
    by (simp add: example_b85_env_def printable_byte_def)
  have r: "raises example_b85_env c = None" for c
    by (simp add: example_b85_env_def)
  from evaluate_printable_result [OF d p] r
  have s: "snd (evaluate example_b85_env ?u []) = [Recurse (Data ?result), AddResults ?result]"
    by auto
  have "fst (evaluate example_b85_env ?u []) = None"
    using try_body_printable [OF d p] r by (simp add: evaluate_def)
  with s show ?thesis by (simp add: prod_eq_iff)
qed

text \<open>
  C4 does not hold of the code. The target is the base85 text of a GIF file of 1048588
  bytes: the decoded bytes are not printable and their type is a good one, so the unit
  takes the artifact branch. With the disk full the write, larger than the handle's
  buffer, raises \<open>OSError\<close>, which leaves \<open>evaluate\<close> after \<open>add_results\<close>,
  \<open>create_artifact\<close> and \<open>write\<close>: the handle is never closed. When the write
  returns, the handle is closed before the unit recurses on the file.
\<close>

theorem evaluate_write_error_leaves_handle_open:
  "base64_b85decode (raw gif_target) = Inr gif_file \<and>
   length gif_file = 1048588 \<and>
   evaluate disk_full_env \<lparr>target = gif_target\<rparr> [] =
     (Some OSError, [AddResults gif_file, CreateArtifact ''decoded'', Write 3 gif_file]) \<and>
   \<not> handle_closed disk_full_env (snd (evaluate disk_full_env \<lparr>target = gif_target\<rparr> [])) \<and>
   evaluate example_b85_env \<lparr>target = gif_target\<rparr> [] =
     (None, [AddResults gif_file, CreateArtifact ''decoded'', Write 3 gif_file, Close 3,
             Recurse (Path ''decoded'')]) \<and>
   handle_closed example_b85_env (snd (evaluate example_b85_env \<lparr>target = gif_target\<rparr> []))"
proof -
  have full: "evaluate disk_full_env \<lparr>target = gif_target\<rparr> [] =
     (Some OSError, [AddResults gif_file, CreateArtifact ''decoded'', Write 3 gif_file])"
    by (simp add: evaluate_def try_body_def do_call_def example_b85_env_def disk_full_env_def
        decode_gif_target gif_file_facts isinstance_def)
  have ok: "evaluate example_b85_env \<lparr>target = gif_target\<rparr> [] =
     (None, [AddResults gif_file, CreateArtifact ''decoded'', Write 3 gif_file, Close 3,
             Recurse (Path ''decoded'')])"
    by (simp add: evaluate_def try_body_def do_call_def example_b85_env_def
        decode_gif_target gif_file_facts)
  show ?thesis
    unfolding full ok
    by (simp add: decode_gif_target gif_file_facts handle_closed_def disk_full_env_def
        example_b85_env_def)
qed

end
